theory Spec2Isabelle
  imports Main "HOL-Library.Sublist"
begin

section \<open>Values shared by the server and the client\<close>

text \<open>
  An awaited call either resolves with a value or rejects (throws) with an error whose
  message is kept.
\<close>

datatype 'a awaited = Returns 'a | Throws string

text \<open>
  Template literals render a number in decimal and a missing value as \<open>undefined\<close>.
\<close>

definition digit_char :: "nat \<Rightarrow> char" where
  "digit_char d = ''0123456789'' ! d"

fun string_of_nat :: "nat \<Rightarrow> string" where
  "string_of_nat n =
     (if n < 10 then [digit_char n]
      else string_of_nat (n div 10) @ [digit_char (n mod 10)])"

definition string_of_int :: "int \<Rightarrow> string" where
  "string_of_int i = (if i < 0 then CHR ''-'' # string_of_nat (nat (- i)) else string_of_nat (nat i))"

definition template_of_status :: "int option \<Rightarrow> string" where
  "template_of_status s = (case s of None \<Rightarrow> ''undefined'' | Some i \<Rightarrow> string_of_int i)"

section \<open>MediaService (api/src/modules/media/services/media.service.ts)\<close>

definition acceptedTypes :: "string list" where
  "acceptedTypes =
     [''image/png'', ''image/jpeg'', ''image/jpg'', ''image/png'', ''image/webp'',
      ''application/pdf'']"

definition maxFileSize :: int where
  "maxFileSize = 1024 * 1024 * 15"

record PutObjectCommand =
  Bucket :: string
  Key :: string
  ContentType :: string
  ContentLength :: int
  ChecksumSHA256 :: string
  Metadata_userId :: string

text \<open>
  \<open>getSignedURL\<close> returns \<open>null\<close> (here \<open>None\<close>) from either guard, and otherwise the URL
  that the presigner of the storage SDK gives for the command, valid for 60 seconds. The
  presigner and the configured bucket name are parameters. The result is paired with the
  list of presigner invocations, so that "nothing was minted" is the empty list.
  Sizes are integers (a byte count); the guard is the source's \<open>size > maxFileSize\<close>.
\<close>

type_synonym presigner = "PutObjectCommand \<Rightarrow> nat \<Rightarrow> string awaited"

definition putObjectCommand ::
  "string \<Rightarrow> int \<Rightarrow> string \<Rightarrow> string \<Rightarrow> int \<Rightarrow> string \<Rightarrow> PutObjectCommand" where
  "putObjectCommand bucket userId filename ty sz checksum =
     \<lparr>Bucket = bucket, Key = filename, ContentType = ty, ContentLength = sz,
      ChecksumSHA256 = checksum, Metadata_userId = string_of_int userId\<rparr>"

definition getSignedURL ::
  "presigner \<Rightarrow> string \<Rightarrow> int \<Rightarrow> string \<Rightarrow> string \<Rightarrow> int \<Rightarrow> string
     \<Rightarrow> (PutObjectCommand \<times> nat) list \<times> string option awaited" where
  "getSignedURL presign bucket userId filename ty sz checksum =
     (if \<not> List.member acceptedTypes ty then ([], Returns None)
      else if sz > maxFileSize then ([], Returns None)
      else
        let cmd = putObjectCommand bucket userId filename ty sz checksum
        in ([(cmd, 60)],
            case presign cmd 60 of
              Returns signedURL \<Rightarrow> Returns (Some signedURL)
            | Throws e \<Rightarrow> Throws e))"

section \<open>Client-side data (website/front)\<close>

text \<open>
  A browser \<open>File\<close>: name, MIME type, size in bytes and content. \<open>new File([f], n,
  {type: f.type})\<close> keeps the content, the size and the type, and gives the name \<open>n\<close>.
\<close>

record File =
  fname :: string
  ftype :: string
  fsize :: int
  fbytes :: "nat list"

text \<open>\<open>name.split('.').pop()\<close>: what follows the last dot, the whole name when it has none.\<close>

definition split_pop :: "string \<Rightarrow> string" where
  "split_pop n = rev (takeWhile (\<lambda>c. c \<noteq> CHR ''.'') (rev n))"

text \<open>
  The fields of the signed-in user that the two workflows read: \<open>applicationId\<close> is
  \<open>userData?.application?.id\<close>, \<open>applicationStatus\<close> is
  \<open>userData?.application?.status?.status\<close> and \<open>reportStatus\<close> is
  \<open>userData?.application?.status?.reportStatus\<close>; \<open>None\<close> is \<open>undefined\<close>.
\<close>

record userData =
  firstName :: string
  lastName :: string
  applicationId :: "int option"
  applicationStatus :: "string option"
  reportStatus :: "string option"

text \<open>
  Responses of the API helpers, read as the callers read them (\<open>response?.field\<close>): a
  \<open>null\<close> response is the record whose optional fields are all \<open>None\<close>.
\<close>

record post_response =
  post_statusCode :: "int option"
  post_message :: "string option"
  post_id :: "int option"

record open_response =
  open_statusCode :: "int option"
  open_isOpen :: bool

text \<open>
  The collaborators that are imported from modules outside the two workflows
  (\<open>@/lib/utils\<close>, \<open>@/api/MediaApi\<close>, \<open>@/api/ApplicationApi\<close>, \<open>@/api/SettingsApi\<close>, the
  clock) are parameters, gathered in one record:
  \<^item> \<open>generateFileName k\<close> is the result of the \<open>k\<close>-th call of \<open>generateFileName()\<close>;
  \<^item> \<open>MediaApi_getSignedURL\<close> gives \<open>signedURLResponse?.url\<close>;
  \<^item> \<open>uploadFile\<close> gives \<open>None\<close> for a falsy response and otherwise whether its
    \<open>success\<close> field is truthy;
  \<^item> \<open>putApplication\<close> and \<open>updateApplicationStatus\<close> give \<open>response?.statusCode\<close>;
  \<^item> \<open>toISOString_now\<close> is \<open>new Date().toISOString()\<close>.
\<close>

record env =
  getUploadFolderName :: "string \<Rightarrow> string \<Rightarrow> string"
  generateFileName :: "nat \<Rightarrow> string"
  computeSHA256 :: "File \<Rightarrow> string awaited"
  MediaApi_getSignedURL :: "string \<Rightarrow> string \<Rightarrow> int \<Rightarrow> string \<Rightarrow> string option awaited"
  uploadFile :: "string \<Rightarrow> File \<Rightarrow> bool option awaited"
  postApplication :: "post_response awaited"
  putApplication :: "int option \<Rightarrow> (string \<times> string) list \<Rightarrow> int option awaited"
  updateApplicationStatus :: "int option \<Rightarrow> (string \<times> string) list \<Rightarrow> int option awaited"
  getApplicationsOpenStatus :: "open_response awaited"
  toISOString_now :: string

text \<open>What a workflow does to the outside, in order: the calls it issues.\<close>

datatype call =
    ComputeSHA256 File
  | GetSignedURL string string int string
  | UploadFile string File
  | PostApplication
  | PutApplication "int option" "(string \<times> string) list"
  | UpdateApplicationStatus "int option" "(string \<times> string) list"

datatype level = Log | Warn | Error

text \<open>
  The toasts of the two components, one constructor for each \<open>toast({...})\<close> site:
  \<^item> \<open>ToastSubmissionsClosed\<close>: "Soumissions fermees" (destructive);
  \<^item> \<open>ToastNoFileSelected\<close>: "Aucun fichier selectionne" (destructive);
  \<^item> \<open>ToastInvalidFormat\<close>: "Format de fichier non valide" (destructive);
  \<^item> \<open>ToastTooLarge\<close>: "Fichier trop volumineux" (destructive);
  \<^item> \<open>ToastSuccess v\<close>: "Travail envoye avec succes", with the description for a report
    that was \<open>VALID\<close> when \<open>v\<close> holds;
  \<^item> \<open>ToastError d\<close>: "Erreur lors de l'envoi" (destructive) with the description
    \<open>error.message\<close>, or the fixed fallback text (\<open>None\<close>) when the message is empty;
  \<^item> \<open>ToastApplicationCreated\<close>: "Application created with success".
\<close>

datatype toast =
    ToastSubmissionsClosed
  | ToastNoFileSelected
  | ToastInvalidFormat
  | ToastTooLarge
  | ToastSuccess bool
  | ToastError "string option"
  | ToastApplicationCreated

text \<open>
  Where a workflow stopped. The source has no error classes: a failure is an \<open>Error\<close>
  thrown at one place of the \<open>try\<close> block and caught by its \<open>catch\<close>; \<open>reason\<close> names the
  place, with the names of the specification's taxonomy where it has one:
  \<^item> \<open>ChecksumFailed\<close>: \<open>computeSHA256\<close> threw;
  \<^item> \<open>AuthorizationDenied\<close>: \<open>getSignedURL\<close> threw, or gave no usable \<open>url\<close>;
  \<^item> \<open>UploadFailed\<close>: \<open>uploadFile\<close> threw, or its response was not a success;
  \<^item> \<open>OrphanedUpload\<close>: the \<open>else\<close> branch of \<open>response?.statusCode === 200\<close> after
    \<open>putApplication\<close>;
  \<^item> \<open>CommitThrew\<close>: \<open>putApplication\<close> itself threw;
  \<^item> \<open>PostFailed\<close>: \<open>postApplication\<close> threw or answered another status than 200;
  \<^item> \<open>StatusUpdateThrew\<close>: \<open>updateApplicationStatus\<close> threw in \<open>onSubmit\<close>.
\<close>

datatype reason =
    ChecksumFailed
  | AuthorizationDenied
  | UploadFailed
  | OrphanedUpload
  | CommitThrew
  | PostFailed
  | StatusUpdateThrew

datatype outcome =
    Done
  | SubmissionsClosed
  | NoFileSelected
  | Failed reason string
  | UncaughtTypeError

text \<open>
  The run of a \<open>try\<close> block: the calls issued, the console lines written, and either the
  error thrown (with the place it was thrown at) or the value the block ends with.
\<close>

type_synonym 'a attempt = "call list \<times> (level \<times> string) list \<times> ((reason \<times> string) + 'a)"

definition prepend :: "call list \<Rightarrow> (level \<times> string) list \<Rightarrow> 'a attempt \<Rightarrow> 'a attempt" where
  "prepend cs ls r = (case r of (cs', ls', x) \<Rightarrow> (cs @ cs', ls @ ls', x))"

text \<open>\<open>!signedURLResponse?.url\<close>: a missing and an empty \<open>url\<close> are both falsy.\<close>

definition truthy_url :: "string option \<Rightarrow> string option" where
  "truthy_url r = (case r of None \<Rightarrow> None | Some u \<Rightarrow> if u = [] then None else Some u)"

definition e_acute :: string where
  "e_acute = [CHR 0xC3, CHR 0xA9]"

section \<open>The report page (website/front/src/app/[lang]/profile/rapport/page.tsx)\<close>

record page_state =
  isApplicationsOpen :: bool
  isCheckingStatus :: bool
  selectedFile :: "File option"
  uploading :: bool

definition initial_state :: page_state where
  "initial_state =
     \<lparr>isApplicationsOpen = True, isCheckingStatus = True, selectedFile = None, uploading = False\<rparr>"

text \<open>
  \<open>checkApplicationStatus\<close> (run once by the first effect; the page shows its skeleton
  until \<open>isCheckingStatus\<close> is false).
\<close>

definition checkApplicationStatus :: "env \<Rightarrow> page_state \<Rightarrow> page_state \<times> (level \<times> string) list" where
  "checkApplicationStatus env st =
     (case getApplicationsOpenStatus env of
        Returns response \<Rightarrow>
          (if open_statusCode response = Some 200
           then (st\<lparr>isApplicationsOpen := open_isOpen response, isCheckingStatus := False\<rparr>, [])
           else (st\<lparr>isApplicationsOpen := False, isCheckingStatus := False\<rparr>, []))
      | Throws e \<Rightarrow>
          (st\<lparr>isApplicationsOpen := False, isCheckingStatus := False\<rparr>,
           [(Error, ''Failed to check application status'')]))"

definition acceptedFileTypes :: "string list" where
  "acceptedFileTypes = [''application/pdf'', ''image/png'', ''image/jpeg'', ''image/jpg'']"

definition maxSizeInBytes :: int where
  "maxSizeInBytes = 15 * 1024 * 1024"

text \<open>
  \<open>handleFileChange\<close> on the files of the input element: the new state, the toasts, and
  whether the input was reset.
\<close>

definition handleFileChange :: "File list \<Rightarrow> page_state \<Rightarrow> page_state \<times> toast list \<times> bool" where
  "handleFileChange files st =
     (case files of
        [] \<Rightarrow> (st, [], False)
      | file # _ \<Rightarrow>
          if \<not> List.member acceptedFileTypes (ftype file) then (st, [ToastInvalidFormat], True)
          else if fsize file > maxSizeInBytes then (st, [ToastTooLarge], True)
          else (st\<lparr>selectedFile := Some file\<rparr>, [], False))"

text \<open>
  The message of the error thrown when the record update answers another status than 200.
\<close>

definition urgent_message :: "env \<Rightarrow> userData \<Rightarrow> int option \<Rightarrow> string" where
  "urgent_message env u statusCode =
     ''URGENT: File uploaded successfully to S3 but database update failed (Status: ''
       @ template_of_status statusCode
       @ ''). Your file is safe in S3. Please contact support immediately with your name: ''
       @ firstName u @ '' '' @ lastName u
       @ '' and this timestamp: '' @ toISOString_now env"

definition no_url_message :: string where
  "no_url_message =
     ''Impossible d'obtenir une URL de t'' @ e_acute @ ''l'' @ e_acute
       @ ''chargement. Veuillez r'' @ e_acute
       @ ''essayer ou contacter le support.''"

text \<open>
  The inner \<open>try\<close>/\<open>catch\<close> around \<open>updateApplicationStatus\<close>: nothing is thrown out of
  it; it only writes to the console. (The console lines are given without the pictograph
  that starts some of them and without the objects passed as further arguments.)
\<close>

definition resetReportStatus :: "env \<Rightarrow> userData \<Rightarrow> call list \<times> (level \<times> string) list" where
  "resetReportStatus env u =
     ([UpdateApplicationStatus (applicationId u) [(''reportStatus'', ''PENDING'')]],
      case updateApplicationStatus env (applicationId u) [(''reportStatus'', ''PENDING'')] of
        Returns statusCode \<Rightarrow>
          [(Log, ''Status update response:''),
           if statusCode = Some 200
           then (Log, ''Report status reset to PENDING successfully'')
           else (Warn, ''Failed to reset report status, but file upload was successful'')]
      | Throws e \<Rightarrow> [(Error, ''Error resetting report status:'')])"

text \<open>
  The record update and what follows it: the block ends with whether the report was
  \<open>VALID\<close> before (it selects the description of the success toast).
\<close>

definition commitReference :: "env \<Rightarrow> userData \<Rightarrow> string \<Rightarrow> bool attempt" where
  "commitReference env u reportUrl =
     prepend [PutApplication (applicationId u) [(''reportUrl'', reportUrl)]]
       [(Log, ''Updating database with reportUrl: '' @ reportUrl)]
       (case putApplication env (applicationId u) [(''reportUrl'', reportUrl)] of
          Throws e \<Rightarrow> ([], [], Inl (CommitThrew, e))
        | Returns statusCode \<Rightarrow>
            if statusCode = Some 200
            then
              (case resetReportStatus env u of
                 (cs, ls) \<Rightarrow>
                   (cs,
                    [(Log, ''Database update response:''),
                     (Log, ''Database update successful - Report URL saved''),
                     (Log, ''Current report status: ''
                        @ (case reportStatus u of None \<Rightarrow> ''undefined'' | Some r \<Rightarrow> r))] @ ls,
                    Inr (reportStatus u = Some ''VALID'')))
            else
              ([],
               [(Log, ''Database update response:''),
                (Error, ''DATABASE UPDATE FAILED - FILE IS IN S3 BUT NOT RECORDED:'')],
               Inl (OrphanedUpload, urgent_message env u statusCode)))"

definition uploadReport :: "env \<Rightarrow> userData \<Rightarrow> string \<Rightarrow> File \<Rightarrow> string \<Rightarrow> bool attempt" where
  "uploadReport env u uploadFolderName file url =
     prepend [UploadFile url file] [(Log, ''Starting S3 upload for file: '' @ fname file)]
       (case uploadFile env url file of
          Throws e \<Rightarrow> ([], [], Inl (UploadFailed, e))
        | Returns uploadResponse \<Rightarrow>
            if uploadResponse = Some True
            then
              prepend [] [(Log, ''S3 upload verified successful for file: '' @ fname file)]
                (commitReference env u (''upload_mtym/'' @ uploadFolderName @ ''/'' @ fname file))
            else
              ([], [],
               Inl (UploadFailed, ''S3 upload validation failed - unexpected response format'')))"

text \<open>The body of the \<open>try\<close> block of \<open>handleUpload\<close>.\<close>

definition tryUpload :: "env \<Rightarrow> userData \<Rightarrow> File \<Rightarrow> bool attempt" where
  "tryUpload env u selected =
     (let uploadFolderName = getUploadFolderName env (firstName u) (lastName u);
          fileName = ''report_'' @ generateFileName env 0 @ ''.'' @ split_pop (fname selected);
          file = selected\<lparr>fname := fileName\<rparr>
      in
        prepend [ComputeSHA256 file] []
          (case computeSHA256 env file of
             Throws e \<Rightarrow> ([], [], Inl (ChecksumFailed, e))
           | Returns checksum \<Rightarrow>
               prepend
                 [GetSignedURL (''upload_mtym/'' @ uploadFolderName @ ''/'' @ fname file)
                    (ftype file) (fsize file) checksum] []
                 (case MediaApi_getSignedURL env
                         (''upload_mtym/'' @ uploadFolderName @ ''/'' @ fname file)
                         (ftype file) (fsize file) checksum of
                    Throws e \<Rightarrow> ([], [], Inl (AuthorizationDenied, e))
                  | Returns signedURLResponse \<Rightarrow>
                      prepend [] [(Log, ''Signed URL response:'')]
                        (case truthy_url signedURLResponse of
                           None \<Rightarrow>
                             ([], [(Error, ''Failed to get signed URL - Response: '')],
                              Inl (AuthorizationDenied, no_url_message))
                         | Some url \<Rightarrow> uploadReport env u uploadFolderName file url))))"

text \<open>
  What a run of a submission handler leaves: the final outcome, the page state, the calls
  issued, the console, the toasts shown and whether a reload of the page was scheduled.
\<close>

record run =
  outcome :: outcome
  state :: page_state
  calls :: "call list"
  console :: "(level \<times> string) list"
  toasts :: "toast list"
  reload :: bool

definition handleUpload :: "env \<Rightarrow> userData \<Rightarrow> page_state \<Rightarrow> run" where
  "handleUpload env u st =
     (if \<not> isApplicationsOpen st
      then \<lparr>outcome = SubmissionsClosed, state = st, calls = [], console = [],
            toasts = [ToastSubmissionsClosed], reload = False\<rparr>
      else
        case selectedFile st of
          None \<Rightarrow>
            \<lparr>outcome = NoFileSelected, state = st, calls = [], console = [],
             toasts = [ToastNoFileSelected], reload = False\<rparr>
        | Some selected \<Rightarrow>
            (case tryUpload env u selected of
               (cs, ls, Inr wasValid) \<Rightarrow>
                 \<lparr>outcome = Done, state = st\<lparr>uploading := False\<rparr>, calls = cs, console = ls,
                  toasts = [ToastSuccess wasValid], reload = True\<rparr>
             | (cs, ls, Inl (r, msg)) \<Rightarrow>
                 \<lparr>outcome = Failed r msg, state = st\<lparr>uploading := False\<rparr>, calls = cs,
                  console = ls @ [(Error, ''UPLOAD PROCESS FAILED - Complete error details:'')],
                  toasts = [ToastError (if msg = [] then None else Some msg)],
                  reload = False\<rparr>))"

section \<open>The application form (website/front/src/app/[lang]/application/form/application-form.tsx)\<close>

text \<open>
  The two file fields of the form (each a list of files, of which the first is used); the
  other fields of the form go to \<open>postApplication\<close> and are not read by \<open>onSubmit\<close>.
\<close>

record formData =
  schoolCertificate :: "File list"
  grades :: "File list"

text \<open>The loop \<open>for (const file of files)\<close>: the first error thrown ends it.\<close>

fun uploadFiles :: "env \<Rightarrow> string \<Rightarrow> File list \<Rightarrow> unit attempt" where
  "uploadFiles env uploadFolderName [] = ([], [], Inr ())"
| "uploadFiles env uploadFolderName (file # rest) =
     prepend [ComputeSHA256 file] []
       (case computeSHA256 env file of
          Throws e \<Rightarrow> ([], [], Inl (ChecksumFailed, e))
        | Returns checksum \<Rightarrow>
            prepend
              [GetSignedURL (''upload_mtym/'' @ uploadFolderName @ ''/'' @ fname file)
                 (ftype file) (fsize file) checksum] []
              (case MediaApi_getSignedURL env
                      (''upload_mtym/'' @ uploadFolderName @ ''/'' @ fname file)
                      (ftype file) (fsize file) checksum of
                 Throws e \<Rightarrow> ([], [], Inl (AuthorizationDenied, e))
               | Returns signedURLResponse \<Rightarrow>
                   (case truthy_url signedURLResponse of
                      None \<Rightarrow>
                        ([], [],
                         Inl (AuthorizationDenied, ''Failed to get signed URL for '' @ fname file))
                    | Some url \<Rightarrow>
                        prepend [UploadFile url file]
                          [(Log, ''Starting S3 upload for application file: '' @ fname file)]
                          (case uploadFile env url file of
                             Throws e \<Rightarrow> ([], [], Inl (UploadFailed, e))
                           | Returns uploadResponse \<Rightarrow>
                               if uploadResponse = Some True
                               then
                                 prepend []
                                   [(Log, ''S3 upload verified successful for application file: ''
                                       @ fname file)]
                                   (uploadFiles env uploadFolderName rest)
                               else
                                 ([], [],
                                  Inl (UploadFailed,
                                       ''S3 upload validation failed for '' @ fname file
                                         @ '' - unexpected response format''))))))"

text \<open>
  After the loop: the upload links are written and the status is updated; the responses
  of both calls are dropped (\<open>await putApplication(...) as any\<close>), only a thrown error
  ends the block.
\<close>

definition updateLinksAndStatus :: "env \<Rightarrow> userData \<Rightarrow> int option \<Rightarrow> string \<Rightarrow> File list \<Rightarrow> unit attempt" where
  "updateLinksAndStatus env u applicationId' uploadFolderName files =
     (let links =
            [(''schoolCertificateUrl'', ''upload_mtym/'' @ uploadFolderName @ ''/'' @ fname (files ! 0)),
             (''gradesUrl'', ''upload_mtym/'' @ uploadFolderName @ ''/'' @ fname (files ! 1))];
          newStatus =
            [(''status'', if applicationStatus u = Some ''NOTIFIED'' then ''UPDATED'' else ''PENDING'')]
      in
        prepend [PutApplication applicationId' links] []
          (case putApplication env applicationId' links of
             Throws e \<Rightarrow> ([], [], Inl (CommitThrew, e))
           | Returns _ \<Rightarrow>
               prepend [UpdateApplicationStatus applicationId' newStatus] []
                 (case updateApplicationStatus env applicationId' newStatus of
                    Throws e \<Rightarrow> ([], [], Inl (StatusUpdateThrew, e))
                  | Returns _ \<Rightarrow> ([], [], Inr ()))))"

text \<open>The body of the \<open>try\<close> block of \<open>onSubmit\<close>; \<open>files\<close> are the two renamed files.\<close>

definition trySubmit :: "env \<Rightarrow> userData \<Rightarrow> string \<Rightarrow> File list \<Rightarrow> unit attempt" where
  "trySubmit env u uploadFolderName files =
     prepend [PostApplication] []
       (case postApplication env of
          Throws e \<Rightarrow> ([], [], Inl (PostFailed, e))
        | Returns applicationResponse \<Rightarrow>
            if post_statusCode applicationResponse = Some 200
            then
              (case uploadFiles env uploadFolderName files of
                 (cs, ls, Inl err) \<Rightarrow> (cs, ls, Inl err)
               | (cs, ls, Inr _) \<Rightarrow>
                   prepend cs ls
                     (updateLinksAndStatus env u (post_id applicationResponse) uploadFolderName files))
            else
              ([], [],
               Inl (PostFailed,
                    case post_message applicationResponse of
                      None \<Rightarrow> ''Post of application failed''
                    | Some m \<Rightarrow> m)))"

text \<open>
  What a run of \<open>onSubmit\<close> leaves: the outcome, the calls, the console, the toasts,
  whether the error dialog is shown, whether the form is still marked as loading, and
  whether the redirection and the reload were started. Reading \<open>files[0]\<close> of an empty
  file field happens before the \<open>try\<close> block: the \<open>TypeError\<close> is not caught and
  \<open>isFormLoading\<close> stays true.
\<close>

record form_run =
  form_outcome :: outcome
  form_calls :: "call list"
  form_console :: "(level \<times> string) list"
  form_toasts :: "toast list"
  showErrorDialog :: bool
  isFormLoading :: bool
  redirected :: bool

definition onSubmit :: "env \<Rightarrow> userData \<Rightarrow> formData \<Rightarrow> form_run" where
  "onSubmit env u formData' =
     (case (schoolCertificate formData', grades formData') of
        (sc # _, gr # _) \<Rightarrow>
          (let uploadFolderName = getUploadFolderName env (firstName u) (lastName u);
               uploadFileNames =
                 [''school_certificate_'' @ generateFileName env 0,
                  ''grades_'' @ generateFileName env 1];
               files =
                 [sc\<lparr>fname := uploadFileNames ! 0 @ ''.'' @ split_pop (fname sc)\<rparr>,
                  gr\<lparr>fname := uploadFileNames ! 1 @ ''.'' @ split_pop (fname gr)\<rparr>]
           in
             case trySubmit env u uploadFolderName files of
               (cs, ls, Inr _) \<Rightarrow>
                 \<lparr>form_outcome = Done, form_calls = cs, form_console = ls,
                  form_toasts = [ToastApplicationCreated], showErrorDialog = False,
                  isFormLoading = False, redirected = True\<rparr>
             | (cs, ls, Inl (r, msg)) \<Rightarrow>
                 \<lparr>form_outcome = Failed r msg, form_calls = cs, form_console = ls,
                  form_toasts = [], showErrorDialog = True,
                  isFormLoading = False, redirected = False\<rparr>)
      | _ \<Rightarrow>
          \<lparr>form_outcome = UncaughtTypeError, form_calls = [], form_console = [],
           form_toasts = [], showErrorDialog = False,
           isFormLoading = True, redirected = False\<rparr>)"

section \<open>The durable record behind the commit calls\<close>

text \<open>
  Modelled from the spec: the server side of \<open>putApplication\<close> and
  \<open>updateApplicationStatus\<close> (the Application Record Committer) is not part of the sources
  at hand. The specification gives it as two operations, \<open>attachObject\<close>, which "records
  the StoredObjectReference, replacing any prior reference for the same logical slot", and
  \<open>resetReviewStatus\<close>, which "updates a status field", whose "output is a status code;
  200-equivalent means success, anything else is a failure". Accordingly the record maps
  an application and a field name to the field's value; a call that answered 200 has
  written its fields, any other call has written nothing.
\<close>

type_synonym backend = "(int \<times> string) \<rightharpoonup> string"

fun write_fields :: "int \<Rightarrow> (string \<times> string) list \<Rightarrow> backend \<Rightarrow> backend" where
  "write_fields i [] b = b"
| "write_fields i ((k, v) # kvs) b = write_fields i kvs (b((i, k) \<mapsto> v))"

definition commit_effect :: "env \<Rightarrow> call \<Rightarrow> backend \<Rightarrow> backend" where
  "commit_effect env c b =
     (case c of
        PutApplication (Some i) kvs \<Rightarrow>
          (if putApplication env (Some i) kvs = Returns (Some 200) then write_fields i kvs b else b)
      | UpdateApplicationStatus (Some i) kvs \<Rightarrow>
          (if updateApplicationStatus env (Some i) kvs = Returns (Some 200)
           then write_fields i kvs b else b)
      | _ \<Rightarrow> b)"

fun backend_after :: "env \<Rightarrow> call list \<Rightarrow> backend \<Rightarrow> backend" where
  "backend_after env [] b = b"
| "backend_after env (c # cs) b = backend_after env cs (commit_effect env c b)"

section \<open>Vocabulary of the statements\<close>

text \<open>
  The renamed file and the object key that \<open>handleUpload\<close> builds from the selected file,
  and the URL with which it enters the upload step (\<open>None\<close> when the checksum or the
  request for a signed URL stopped it before).
\<close>

definition reportFile :: "env \<Rightarrow> File \<Rightarrow> File" where
  "reportFile env selected =
     selected\<lparr>fname := ''report_'' @ generateFileName env 0 @ ''.'' @ split_pop (fname selected)\<rparr>"

definition reportKey :: "env \<Rightarrow> userData \<Rightarrow> File \<Rightarrow> string" where
  "reportKey env u selected =
     ''upload_mtym/'' @ getUploadFolderName env (firstName u) (lastName u) @ ''/''
       @ fname (reportFile env selected)"

definition authorizedUrl :: "env \<Rightarrow> string \<Rightarrow> File \<Rightarrow> string option" where
  "authorizedUrl env key file =
     (case computeSHA256 env file of
        Throws e \<Rightarrow> None
      | Returns checksum \<Rightarrow>
          (case MediaApi_getSignedURL env key (ftype file) (fsize file) checksum of
             Throws e \<Rightarrow> None
           | Returns signedURLResponse \<Rightarrow> truthy_url signedURLResponse))"

text \<open>The two renamed files of \<open>onSubmit\<close> and the key of a file in the upload folder.\<close>

definition certificateFile :: "env \<Rightarrow> File \<Rightarrow> File" where
  "certificateFile env sc =
     sc\<lparr>fname := ''school_certificate_'' @ generateFileName env 0 @ ''.'' @ split_pop (fname sc)\<rparr>"

definition gradesFile :: "env \<Rightarrow> File \<Rightarrow> File" where
  "gradesFile env gr =
     gr\<lparr>fname := ''grades_'' @ generateFileName env 1 @ ''.'' @ split_pop (fname gr)\<rparr>"

definition objectKey :: "env \<Rightarrow> userData \<Rightarrow> File \<Rightarrow> string" where
  "objectKey env u file =
     ''upload_mtym/'' @ getUploadFolderName env (firstName u) (lastName u) @ ''/'' @ fname file"

text \<open>
  A file passes the loop of \<open>onSubmit\<close> when its upload is entered and reports success;
  its upload fails when it is entered and reports anything else.
\<close>

definition uploadSucceeds :: "env \<Rightarrow> userData \<Rightarrow> File \<Rightarrow> bool" where
  "uploadSucceeds env u file =
     (case authorizedUrl env (objectKey env u file) file of
        None \<Rightarrow> False
      | Some url \<Rightarrow> uploadFile env url file = Returns (Some True))"

definition uploadFails :: "env \<Rightarrow> userData \<Rightarrow> File \<Rightarrow> bool" where
  "uploadFails env u file =
     (case authorizedUrl env (objectKey env u file) file of
        None \<Rightarrow> False
      | Some url \<Rightarrow> uploadFile env url file \<noteq> Returns (Some True))"

text \<open>The calls that write to the durable record.\<close>

definition is_commit :: "call \<Rightarrow> bool" where
  "is_commit c =
     (case c of
        PutApplication i kvs \<Rightarrow> True
      | UpdateApplicationStatus i kvs \<Rightarrow> True
      | _ \<Rightarrow> False)"

section \<open>Concrete runs\<close>

text \<open>An environment in which every collaborator succeeds, and variations of it.\<close>

definition env_ok :: env where
  "env_ok =
     \<lparr>getUploadFolderName = (\<lambda>f l. f @ ''_'' @ l),
      generateFileName = (\<lambda>k. if k = 0 then ''1717236000000'' else ''1717236000001''),
      computeSHA256 = (\<lambda>f. Returns ''q1b2c3''),
      MediaApi_getSignedURL = (\<lambda>k t s c. Returns (Some (''https://s3.example/'' @ k))),
      uploadFile = (\<lambda>url f. Returns (Some True)),
      postApplication =
        Returns \<lparr>post_statusCode = Some 200, post_message = None, post_id = Some 42\<rparr>,
      putApplication = (\<lambda>i kvs. Returns (Some 200)),
      updateApplicationStatus = (\<lambda>i kvs. Returns (Some 200)),
      getApplicationsOpenStatus = Returns \<lparr>open_statusCode = Some 200, open_isOpen = True\<rparr>,
      toISOString_now = ''2025-06-01T10:00:00.000Z''\<rparr>"

definition env_upload_throws :: env where
  "env_upload_throws = env_ok\<lparr>uploadFile := (\<lambda>url f. Throws ''Network Error'')\<rparr>"

definition env_second_upload_fails :: env where
  "env_second_upload_fails =
     env_ok\<lparr>uploadFile :=
       (\<lambda>url f. if take 6 (fname f) = ''grades'' then Returns (Some False) else Returns (Some True))\<rparr>"

definition env_commit_500 :: env where
  "env_commit_500 = env_ok\<lparr>putApplication := (\<lambda>i kvs. Returns (Some 500))\<rparr>"

definition env_reset_500 :: env where
  "env_reset_500 = env_ok\<lparr>updateApplicationStatus := (\<lambda>i kvs. Returns (Some 500))\<rparr>"

definition env_reset_throws :: env where
  "env_reset_throws = env_ok\<lparr>updateApplicationStatus := (\<lambda>i kvs. Throws ''Network Error'')\<rparr>"

definition env_open_throws :: env where
  "env_open_throws = env_ok\<lparr>getApplicationsOpenStatus := Throws ''Network Error''\<rparr>"

definition env_open_503 :: env where
  "env_open_503 =
     env_ok\<lparr>getApplicationsOpenStatus :=
       Returns \<lparr>open_statusCode = Some 503, open_isOpen = True\<rparr>\<rparr>"

definition amina :: userData where
  "amina =
     \<lparr>firstName = ''Amina'', lastName = ''Idrissi'', applicationId = Some 42,
      applicationStatus = Some ''PENDING'', reportStatus = Some ''VALID''\<rparr>"

definition devoir_pdf :: File where
  "devoir_pdf =
     \<lparr>fname = ''devoir.final.pdf'', ftype = ''application/pdf'', fsize = 1048576,
      fbytes = [37, 80, 68, 70]\<rparr>"

definition photo_webp :: File where
  "photo_webp =
     \<lparr>fname = ''scan.webp'', ftype = ''image/webp'', fsize = 2048, fbytes = [82, 73, 70, 70]\<rparr>"

definition releve_png :: File where
  "releve_png =
     \<lparr>fname = ''releve.png'', ftype = ''image/png'', fsize = 4096, fbytes = [137, 80, 78, 71]\<rparr>"

definition ready_state :: page_state where
  "ready_state =
     \<lparr>isApplicationsOpen = True, isCheckingStatus = False, selectedFile = Some devoir_pdf,
      uploading = False\<rparr>"

definition two_files :: formData where
  "two_files = \<lparr>schoolCertificate = [devoir_pdf], grades = [releve_png]\<rparr>"

definition validated_record :: backend where
  "validated_record = [(42, ''reportStatus'') \<mapsto> ''VALID'', (42, ''reportUrl'') \<mapsto> ''upload_mtym/Amina_Idrissi/report_1.pdf'']"

definition presign_ok :: presigner where
  "presign_ok = (\<lambda>cmd expiresIn. Returns (''https://s3.example/'' @ Key cmd @ ''?X-Amz-Signature=0''))"

section \<open>Properties of the upload URL broker\<close>

lemma maxFileSize_value: "maxFileSize = 15728640"
  by (simp add: maxFileSize_def)

text \<open>
  C5, as amended: for every content type outside \<open>acceptedTypes\<close>, \<open>getSignedURL\<close> returns
  \<open>null\<close> and the presigner is not invoked, so no upload authorization is minted.
  The returned \<open>null\<close> carries no reason.
\<close>

theorem getSignedURL_rejects_unaccepted:
  "\<not> List.member acceptedTypes ty \<Longrightarrow>
     getSignedURL presign bucket userId filename ty sz checksum = ([], Returns None)"
  by (simp add: getSignedURL_def)

lemma zip_not_accepted: "\<not> List.member acceptedTypes ''application/zip''"
  by (simp add: acceptedTypes_def)

theorem getSignedURL_rejects_unaccepted_witness:
  "\<not> List.member acceptedTypes ''application/zip'' \<and>
   getSignedURL presign_ok ''fma-bucket'' 7 ''upload_mtym/Amina_Idrissi/report_1.zip''
     ''application/zip'' 1024 ''q1b2c3'' = ([], Returns None)"
  using zip_not_accepted
    getSignedURL_rejects_unaccepted
      [OF zip_not_accepted, of presign_ok "''fma-bucket''" 7
         "''upload_mtym/Amina_Idrissi/report_1.zip''" 1024 "''q1b2c3''"]
  by simp

text \<open>
  C5, as stated, asks for a rejection that signals \<open>UnsupportedType\<close>. The value returned
  for an unsupported type is the value returned for an accepted type that is too large:
  the caller cannot tell the two rejections apart.
\<close>

theorem getSignedURL_rejections_alike:
  "getSignedURL presign_ok ''fma-bucket'' 7 ''upload_mtym/Amina_Idrissi/report_1.zip''
     ''application/zip'' 1024 ''q1b2c3''
   = getSignedURL presign_ok ''fma-bucket'' 7 ''upload_mtym/Amina_Idrissi/report_1.zip''
       ''application/pdf'' 15728641 ''q1b2c3'' \<and>
   snd (getSignedURL presign_ok ''fma-bucket'' 7 ''upload_mtym/Amina_Idrissi/report_1.zip''
     ''application/zip'' 1024 ''q1b2c3'') = Returns None"
  by (simp add: getSignedURL_def acceptedTypes_def maxFileSize_def)

text \<open>
  C6: every size strictly above 15,728,640 bytes is rejected (\<open>null\<close>), whatever the
  content type, and the presigner is not invoked.
\<close>

theorem getSignedURL_rejects_oversize:
  "sz > 15728640 \<Longrightarrow>
     getSignedURL presign bucket userId filename ty sz checksum = ([], Returns None)"
  by (simp add: getSignedURL_def maxFileSize_def)

theorem getSignedURL_rejects_oversize_witness:
  "(15728641::int) > 15728640 \<and>
   getSignedURL presign_ok ''fma-bucket'' 7 ''upload_mtym/Amina_Idrissi/report_1.pdf''
     ''application/pdf'' 15728641 ''q1b2c3'' = ([], Returns None)"
  using getSignedURL_rejects_oversize
    [of 15728641 presign_ok "''fma-bucket''" 7
        "''upload_mtym/Amina_Idrissi/report_1.pdf''" "''application/pdf''" "''q1b2c3''"]
  by simp

text \<open>
  C10: a request of an accepted content type whose size is exactly 15,728,640 bytes passes
  both guards (the size guard is a strict comparison): the presigner is invoked once, for
  the command bound to the request and for 60 seconds, the result is never the \<open>null\<close>
  of a rejection, and the URL the presigner gives is the URL returned.
\<close>

theorem getSignedURL_accepts_ceiling:
  "List.member acceptedTypes ty \<Longrightarrow>
     getSignedURL presign bucket userId filename ty 15728640 checksum =
       ([(putObjectCommand bucket userId filename ty 15728640 checksum, 60)],
        case presign (putObjectCommand bucket userId filename ty 15728640 checksum) 60 of
          Returns signedURL \<Rightarrow> Returns (Some signedURL)
        | Throws e \<Rightarrow> Throws e) \<and>
     snd (getSignedURL presign bucket userId filename ty 15728640 checksum) \<noteq> Returns None"
  by (simp add: getSignedURL_def maxFileSize_def Let_def split: awaited.splits)

lemma pdf_accepted: "List.member acceptedTypes ''application/pdf''"
  by (simp add: acceptedTypes_def)

theorem getSignedURL_accepts_ceiling_witness:
  "List.member acceptedTypes ''application/pdf'' \<and>
   getSignedURL presign_ok ''fma-bucket'' 7 ''upload_mtym/Amina_Idrissi/report_1.pdf''
     ''application/pdf'' 15728640 ''q1b2c3'' =
     ([(putObjectCommand ''fma-bucket'' 7 ''upload_mtym/Amina_Idrissi/report_1.pdf''
          ''application/pdf'' 15728640 ''q1b2c3'', 60)],
      Returns (Some ''https://s3.example/upload_mtym/Amina_Idrissi/report_1.pdf?X-Amz-Signature=0''))"
  using pdf_accepted
    getSignedURL_accepts_ceiling
      [OF pdf_accepted, of presign_ok "''fma-bucket''" 7
         "''upload_mtym/Amina_Idrissi/report_1.pdf''" "''q1b2c3''"]
  by (simp add: presign_ok_def putObjectCommand_def)

section \<open>The file types of the client and of the broker\<close>

lemma client_types_subset: "set acceptedFileTypes \<subseteq> set acceptedTypes"
  by (simp add: acceptedFileTypes_def acceptedTypes_def)

lemma webp_not_client: "''image/webp'' \<notin> set acceptedFileTypes"
  by (simp add: acceptedFileTypes_def)

lemma webp_broker: "''image/webp'' \<in> set acceptedTypes"
  by (simp add: acceptedTypes_def)

lemma handleFileChange_webp:
  "handleFileChange [photo_webp] initial_state = (initial_state, [ToastInvalidFormat], True)"
  by (simp add: handleFileChange_def photo_webp_def acceptedFileTypes_def)

lemma getSignedURL_webp:
  "getSignedURL presign_ok ''fma-bucket'' 7 ''upload_mtym/Amina_Idrissi/report_1.webp''
       (ftype photo_webp) (fsize photo_webp) ''q1b2c3'' =
     ([(putObjectCommand ''fma-bucket'' 7 ''upload_mtym/Amina_Idrissi/report_1.webp''
          ''image/webp'' 2048 ''q1b2c3'', 60)],
      Returns (Some ''https://s3.example/upload_mtym/Amina_Idrissi/report_1.webp?X-Amz-Signature=0''))"
  by (simp add: getSignedURL_def photo_webp_def acceptedTypes_def maxFileSize_def presign_ok_def
      putObjectCommand_def Let_def)

lemma handleFileChange_selects:
  "handleFileChange (f # rest) st =
     (if ftype f \<in> {''application/pdf'', ''image/png'', ''image/jpeg'', ''image/jpg''}
      then (if fsize f > 15728640 then (st, [ToastTooLarge], True)
            else (st\<lparr>selectedFile := Some f\<rparr>, [], False))
      else (st, [ToastInvalidFormat], True))"
  by (simp add: handleFileChange_def acceptedFileTypes_def maxSizeInBytes_def)

lemma handleFileChange_empty: "handleFileChange [] st = (st, [], False)"
  by (simp add: handleFileChange_def)

lemma getSignedURL_webp_any_size:
  "getSignedURL presign bucket userId filename ''image/webp'' sz checksum =
     (if sz > 15728640 then ([], Returns None)
      else
        ([(putObjectCommand bucket userId filename ''image/webp'' sz checksum, 60)],
         case presign (putObjectCommand bucket userId filename ''image/webp'' sz checksum) 60 of
           Returns signedURL \<Rightarrow> Returns (Some signedURL)
         | Throws e \<Rightarrow> Throws e))"
  by (simp add: getSignedURL_def acceptedTypes_def maxFileSize_def Let_def)

text \<open>
  C9: the file selection of the report page accepts only \<open>application/pdf\<close>, \<open>image/png\<close>,
  \<open>image/jpeg\<close> and \<open>image/jpg\<close>: for every first file of the input, \<open>handleFileChange\<close>
  selects it exactly when its type is one of these four and its size is at most
  15,728,640 bytes, and otherwise leaves the page state as it was, shows a toast and resets
  the input (with no file, nothing happens). These four types are a strict subset of the
  broker's accepted types: a file of type \<open>image/webp\<close> is refused by the client, whatever
  its size, although \<open>getSignedURL\<close> passes that type to the presigner for every size up to
  the ceiling.
\<close>

theorem client_types_stricter_than_broker:
  "handleFileChange (f # rest) st =
     (if ftype f \<in> {''application/pdf'', ''image/png'', ''image/jpeg'', ''image/jpg''}
      then (if fsize f > 15728640 then (st, [ToastTooLarge], True)
            else (st\<lparr>selectedFile := Some f\<rparr>, [], False))
      else (st, [ToastInvalidFormat], True)) \<and>
   handleFileChange [] st = (st, [], False) \<and>
   set acceptedFileTypes = {''application/pdf'', ''image/png'', ''image/jpeg'', ''image/jpg''} \<and>
   set acceptedFileTypes \<subset> set acceptedTypes \<and>
   handleFileChange (g\<lparr>ftype := ''image/webp''\<rparr> # rest) st = (st, [ToastInvalidFormat], True) \<and>
   getSignedURL presign bucket userId filename ''image/webp'' sz checksum =
     (if sz > 15728640 then ([], Returns None)
      else
        ([(putObjectCommand bucket userId filename ''image/webp'' sz checksum, 60)],
         case presign (putObjectCommand bucket userId filename ''image/webp'' sz checksum) 60 of
           Returns signedURL \<Rightarrow> Returns (Some signedURL)
         | Throws e \<Rightarrow> Throws e)) \<and>
   handleFileChange [photo_webp] initial_state = (initial_state, [ToastInvalidFormat], True) \<and>
   getSignedURL presign_ok ''fma-bucket'' 7 ''upload_mtym/Amina_Idrissi/report_1.webp''
       (ftype photo_webp) (fsize photo_webp) ''q1b2c3'' =
     ([(putObjectCommand ''fma-bucket'' 7 ''upload_mtym/Amina_Idrissi/report_1.webp''
          ''image/webp'' 2048 ''q1b2c3'', 60)],
      Returns (Some ''https://s3.example/upload_mtym/Amina_Idrissi/report_1.webp?X-Amz-Signature=0''))"
proof (intro conjI)
  show "handleFileChange (f # rest) st =
     (if ftype f \<in> {''application/pdf'', ''image/png'', ''image/jpeg'', ''image/jpg''}
      then (if fsize f > 15728640 then (st, [ToastTooLarge], True)
            else (st\<lparr>selectedFile := Some f\<rparr>, [], False))
      else (st, [ToastInvalidFormat], True))"
    by (rule handleFileChange_selects)
  show "handleFileChange [] st = (st, [], False)"
    by (rule handleFileChange_empty)
  show "set acceptedFileTypes = {''application/pdf'', ''image/png'', ''image/jpeg'', ''image/jpg''}"
    by (simp add: acceptedFileTypes_def)
  show "set acceptedFileTypes \<subset> set acceptedTypes"
    using client_types_subset webp_not_client webp_broker by blast
  show "handleFileChange (g\<lparr>ftype := ''image/webp''\<rparr> # rest) st = (st, [ToastInvalidFormat], True)"
    by (simp add: handleFileChange_selects)
  show "getSignedURL presign bucket userId filename ''image/webp'' sz checksum =
     (if sz > 15728640 then ([], Returns None)
      else
        ([(putObjectCommand bucket userId filename ''image/webp'' sz checksum, 60)],
         case presign (putObjectCommand bucket userId filename ''image/webp'' sz checksum) 60 of
           Returns signedURL \<Rightarrow> Returns (Some signedURL)
         | Throws e \<Rightarrow> Throws e))"
    by (rule getSignedURL_webp_any_size)
qed (rule handleFileChange_webp getSignedURL_webp)+

lemma handleFileChange_devoir:
  "handleFileChange [devoir_pdf] initial_state
     = (initial_state\<lparr>selectedFile := Some devoir_pdf\<rparr>, [], False)"
  by (simp add: handleFileChange_def acceptedFileTypes_def maxSizeInBytes_def devoir_pdf_def)

theorem client_types_stricter_than_broker_witness:
  "handleFileChange [devoir_pdf] initial_state
     = (initial_state\<lparr>selectedFile := Some devoir_pdf\<rparr>, [], False) \<and>
   handleFileChange [photo_webp] initial_state = (initial_state, [ToastInvalidFormat], True) \<and>
   handleFileChange [devoir_pdf\<lparr>ftype := ''application/zip''\<rparr>] initial_state
     = (initial_state, [ToastInvalidFormat], True) \<and>
   handleFileChange [devoir_pdf\<lparr>fsize := 15728641\<rparr>] initial_state
     = (initial_state, [ToastTooLarge], True) \<and>
   getSignedURL presign_ok ''fma-bucket'' 7 ''upload_mtym/Amina_Idrissi/report_1.webp''
       ''image/webp'' 2048 ''q1b2c3'' =
     ([(putObjectCommand ''fma-bucket'' 7 ''upload_mtym/Amina_Idrissi/report_1.webp''
          ''image/webp'' 2048 ''q1b2c3'', 60)],
      Returns (Some ''https://s3.example/upload_mtym/Amina_Idrissi/report_1.webp?X-Amz-Signature=0''))"
  using client_types_stricter_than_broker
      [of devoir_pdf "[]" initial_state photo_webp presign_ok "''fma-bucket''" 7
          "''upload_mtym/Amina_Idrissi/report_1.webp''" 2048 "''q1b2c3''"]
    client_types_stricter_than_broker
      [of "devoir_pdf\<lparr>ftype := ''application/zip''\<rparr>" "[]" initial_state photo_webp presign_ok
          "''fma-bucket''" 7 "''upload_mtym/Amina_Idrissi/report_1.webp''" 2048 "''q1b2c3''"]
    client_types_stricter_than_broker
      [of "devoir_pdf\<lparr>fsize := 15728641\<rparr>" "[]" initial_state photo_webp presign_ok
          "''fma-bucket''" 7 "''upload_mtym/Amina_Idrissi/report_1.webp''" 2048 "''q1b2c3''"]
    handleFileChange_devoir handleFileChange_webp getSignedURL_webp
  by (simp add: devoir_pdf_def photo_webp_def)

section \<open>The report workflow, stage by stage\<close>

text \<open>
  Once the upload step is entered, the \<open>try\<close> block has computed the checksum and
  requested the signed URL, and goes on with \<open>uploadFile\<close>.
\<close>

lemma tryUpload_entered:
  assumes "authorizedUrl env (reportKey env u selected) (reportFile env selected) = Some url"
  shows "\<exists>checksum.
    tryUpload env u selected =
      prepend
        [ComputeSHA256 (reportFile env selected),
         GetSignedURL (reportKey env u selected) (ftype selected) (fsize selected) checksum]
        [(Log, ''Signed URL response:'')]
        (uploadReport env u (getUploadFolderName env (firstName u) (lastName u))
           (reportFile env selected) url)"
  using assms
  by (auto simp: tryUpload_def authorizedUrl_def reportKey_def reportFile_def prepend_def Let_def
      split: awaited.splits option.splits prod.splits)

lemma tryUpload_uploaded:
  assumes "authorizedUrl env (reportKey env u selected) (reportFile env selected) = Some url"
    and "uploadFile env url (reportFile env selected) = Returns (Some True)"
  shows "\<exists>checksum.
    tryUpload env u selected =
      prepend
        [ComputeSHA256 (reportFile env selected),
         GetSignedURL (reportKey env u selected) (ftype selected) (fsize selected) checksum,
         UploadFile url (reportFile env selected)]
        [(Log, ''Signed URL response:''),
         (Log, ''Starting S3 upload for file: '' @ fname (reportFile env selected)),
         (Log, ''S3 upload verified successful for file: '' @ fname (reportFile env selected))]
        (commitReference env u (reportKey env u selected))"
proof -
  obtain checksum where t: "tryUpload env u selected =
      prepend
        [ComputeSHA256 (reportFile env selected),
         GetSignedURL (reportKey env u selected) (ftype selected) (fsize selected) checksum]
        [(Log, ''Signed URL response:'')]
        (uploadReport env u (getUploadFolderName env (firstName u) (lastName u))
           (reportFile env selected) url)"
    using tryUpload_entered[OF assms(1)] by blast
  show ?thesis
    using assms(2)
    by (auto simp: t uploadReport_def prepend_def reportKey_def split: prod.splits)
qed

lemma is_commit_simps [simp]:
  "is_commit (ComputeSHA256 f) = False"
  "is_commit (GetSignedURL k t s c) = False"
  "is_commit (UploadFile url f) = False"
  "is_commit PostApplication = False"
  "is_commit (PutApplication i kvs) = True"
  "is_commit (UpdateApplicationStatus i kvs) = True"
  by (simp_all add: is_commit_def)

lemma commit_effect_simps [simp]:
  "commit_effect env (ComputeSHA256 f) b = b"
  "commit_effect env (GetSignedURL k t s c) b = b"
  "commit_effect env (UploadFile url f) b = b"
  "commit_effect env PostApplication b = b"
  by (simp_all add: commit_effect_def)

lemma backend_after_no_commit:
  "filter is_commit cs = [] \<Longrightarrow> backend_after env cs b = b"
proof (induction cs arbitrary: b)
  case Nil
  show ?case by simp
next
  case (Cons c cs)
  then show ?case
    by (cases c) (simp_all split: if_splits)
qed

lemma handleUpload_upload_failed:
  assumes "isApplicationsOpen st" "selectedFile st = Some selected"
    and "authorizedUrl env (reportKey env u selected) (reportFile env selected) = Some url"
    and "uploadFile env url (reportFile env selected) \<noteq> Returns (Some True)"
  shows "outcome (handleUpload env u st) =
      Failed UploadFailed
        (case uploadFile env url (reportFile env selected) of
           Throws e \<Rightarrow> e
         | Returns uploadResponse \<Rightarrow> ''S3 upload validation failed - unexpected response format'')"
    and "\<exists>checksum. calls (handleUpload env u st) =
      [ComputeSHA256 (reportFile env selected),
       GetSignedURL (reportKey env u selected) (ftype selected) (fsize selected) checksum,
       UploadFile url (reportFile env selected)]"
proof -
  obtain checksum where t: "tryUpload env u selected =
      prepend
        [ComputeSHA256 (reportFile env selected),
         GetSignedURL (reportKey env u selected) (ftype selected) (fsize selected) checksum]
        [(Log, ''Signed URL response:'')]
        (uploadReport env u (getUploadFolderName env (firstName u) (lastName u))
           (reportFile env selected) url)"
    using tryUpload_entered[OF assms(3)] by blast
  show "outcome (handleUpload env u st) =
      Failed UploadFailed
        (case uploadFile env url (reportFile env selected) of
           Throws e \<Rightarrow> e
         | Returns uploadResponse \<Rightarrow> ''S3 upload validation failed - unexpected response format'')"
    using assms(1,2,4)
    by (auto simp: handleUpload_def t uploadReport_def prepend_def split: awaited.splits)
  show "\<exists>checksum. calls (handleUpload env u st) =
      [ComputeSHA256 (reportFile env selected),
       GetSignedURL (reportKey env u selected) (ftype selected) (fsize selected) checksum,
       UploadFile url (reportFile env selected)]"
    using assms(1,2,4)
    by (auto simp: handleUpload_def t uploadReport_def prepend_def split: awaited.splits)
qed

subsection \<open>The message of an orphaned upload\<close>

lemma urgent_message_names_owner:
  "sublist (firstName u @ '' '' @ lastName u) (urgent_message env u statusCode)"
  unfolding urgent_message_def sublist_def
  by (rule exI[of _ "''URGENT: File uploaded successfully to S3 but database update failed (Status: ''
       @ template_of_status statusCode
       @ ''). Your file is safe in S3. Please contact support immediately with your name: ''"],
      rule exI[of _ "'' and this timestamp: '' @ toISOString_now env"]) simp

lemma urgent_message_has_timestamp:
  "suffix (toISOString_now env) (urgent_message env u statusCode)"
  unfolding urgent_message_def suffix_def
  by (rule exI[of _ "''URGENT: File uploaded successfully to S3 but database update failed (Status: ''
       @ template_of_status statusCode
       @ ''). Your file is safe in S3. Please contact support immediately with your name: ''
       @ firstName u @ '' '' @ lastName u @ '' and this timestamp: ''"]) simp

lemma urgent_message_nonempty: "urgent_message env u statusCode \<noteq> []"
  by (simp add: urgent_message_def)

text \<open>
  On the report page, an upload that succeeded followed by a record update that answers
  another status than 200 ends in the orphaned-upload error, whose message (shown in the
  destructive toast) contains the owner's first and last name and ends with the timestamp.
\<close>

lemma handleUpload_orphaned_upload:
  assumes "isApplicationsOpen st" "selectedFile st = Some selected"
    and "authorizedUrl env (reportKey env u selected) (reportFile env selected) = Some url"
    and "uploadFile env url (reportFile env selected) = Returns (Some True)"
    and "putApplication env (applicationId u) [(''reportUrl'', reportKey env u selected)]
           = Returns statusCode"
    and "statusCode \<noteq> Some 200"
  shows "outcome (handleUpload env u st) = Failed OrphanedUpload (urgent_message env u statusCode) \<and>
    toasts (handleUpload env u st) = [ToastError (Some (urgent_message env u statusCode))] \<and>
    sublist (firstName u @ '' '' @ lastName u) (urgent_message env u statusCode) \<and>
    suffix (toISOString_now env) (urgent_message env u statusCode)"
proof -
  obtain checksum where t: "tryUpload env u selected =
      prepend
        [ComputeSHA256 (reportFile env selected),
         GetSignedURL (reportKey env u selected) (ftype selected) (fsize selected) checksum,
         UploadFile url (reportFile env selected)]
        [(Log, ''Signed URL response:''),
         (Log, ''Starting S3 upload for file: '' @ fname (reportFile env selected)),
         (Log, ''S3 upload verified successful for file: '' @ fname (reportFile env selected))]
        (commitReference env u (reportKey env u selected))"
    using tryUpload_uploaded[OF assms(3,4)] by blast
  have "outcome (handleUpload env u st) = Failed OrphanedUpload (urgent_message env u statusCode)"
    and "toasts (handleUpload env u st) = [ToastError (Some (urgent_message env u statusCode))]"
    using assms(1,2,5,6)
    by (simp_all add: handleUpload_def t commitReference_def prepend_def urgent_message_nonempty)
  then show ?thesis
    using urgent_message_names_owner urgent_message_has_timestamp by blast
qed

subsection \<open>Concrete facts used by the witnesses\<close>

lemma ready_open: "isApplicationsOpen ready_state"
  by (simp add: ready_state_def)

lemma ready_selected: "selectedFile ready_state = Some devoir_pdf"
  by (simp add: ready_state_def)


lemma amina_valid: "reportStatus amina = Some ''VALID''"
  by (simp add: amina_def)


lemma split_pop_devoir: "split_pop ''devoir.final.pdf'' = ''pdf''"
  by (simp add: split_pop_def)

lemma split_pop_releve: "split_pop ''releve.png'' = ''png''"
  by (simp add: split_pop_def)

lemmas env_defs =
  env_ok_def env_upload_throws_def env_second_upload_fails_def env_commit_500_def
  env_reset_500_def env_reset_throws_def env_open_throws_def env_open_503_def

lemma reportFile_devoir:
  "reportFile env_ok devoir_pdf = devoir_pdf\<lparr>fname := ''report_1717236000000.pdf''\<rparr>"
  "reportFile env_upload_throws devoir_pdf = devoir_pdf\<lparr>fname := ''report_1717236000000.pdf''\<rparr>"
  "reportFile env_commit_500 devoir_pdf = devoir_pdf\<lparr>fname := ''report_1717236000000.pdf''\<rparr>"
  "reportFile env_reset_500 devoir_pdf = devoir_pdf\<lparr>fname := ''report_1717236000000.pdf''\<rparr>"
  "reportFile env_reset_throws devoir_pdf = devoir_pdf\<lparr>fname := ''report_1717236000000.pdf''\<rparr>"
  by (simp_all add: reportFile_def env_defs devoir_pdf_def split_pop_devoir)

lemma reportKey_devoir:
  "reportKey env_ok amina devoir_pdf = ''upload_mtym/Amina_Idrissi/report_1717236000000.pdf''"
  "reportKey env_upload_throws amina devoir_pdf = ''upload_mtym/Amina_Idrissi/report_1717236000000.pdf''"
  "reportKey env_commit_500 amina devoir_pdf = ''upload_mtym/Amina_Idrissi/report_1717236000000.pdf''"
  "reportKey env_reset_500 amina devoir_pdf = ''upload_mtym/Amina_Idrissi/report_1717236000000.pdf''"
  "reportKey env_reset_throws amina devoir_pdf = ''upload_mtym/Amina_Idrissi/report_1717236000000.pdf''"
  by (simp_all add: reportKey_def reportFile_devoir) (simp_all add: env_defs amina_def devoir_pdf_def)

lemma authorizedUrl_devoir:
  "authorizedUrl env_ok (reportKey env_ok amina devoir_pdf) (reportFile env_ok devoir_pdf)
     = Some ''https://s3.example/upload_mtym/Amina_Idrissi/report_1717236000000.pdf''"
  "authorizedUrl env_upload_throws (reportKey env_upload_throws amina devoir_pdf)
       (reportFile env_upload_throws devoir_pdf)
     = Some ''https://s3.example/upload_mtym/Amina_Idrissi/report_1717236000000.pdf''"
  "authorizedUrl env_commit_500 (reportKey env_commit_500 amina devoir_pdf)
       (reportFile env_commit_500 devoir_pdf)
     = Some ''https://s3.example/upload_mtym/Amina_Idrissi/report_1717236000000.pdf''"
  "authorizedUrl env_reset_500 (reportKey env_reset_500 amina devoir_pdf)
       (reportFile env_reset_500 devoir_pdf)
     = Some ''https://s3.example/upload_mtym/Amina_Idrissi/report_1717236000000.pdf''"
  "authorizedUrl env_reset_throws (reportKey env_reset_throws amina devoir_pdf)
       (reportFile env_reset_throws devoir_pdf)
     = Some ''https://s3.example/upload_mtym/Amina_Idrissi/report_1717236000000.pdf''"
  by (simp_all add: reportKey_devoir authorizedUrl_def)
     (simp_all add: env_defs truthy_url_def)

section \<open>Failures around the record update of the report page\<close>

text \<open>
  C8: when the record update of a report answered 200 and the status reset that follows
  fails (another status than 200, or a thrown error), the run still ends in \<open>Done\<close>: the
  success toast is shown and the reload is scheduled. The failure leaves one console line
  and nothing else: a warning when the reset answered, an error line when it threw.
\<close>

theorem handleUpload_reset_nonfatal:
  assumes "isApplicationsOpen st" "selectedFile st = Some selected"
    and "authorizedUrl env (reportKey env u selected) (reportFile env selected) = Some url"
    and "uploadFile env url (reportFile env selected) = Returns (Some True)"
    and "putApplication env (applicationId u) [(''reportUrl'', reportKey env u selected)]
           = Returns (Some 200)"
    and "updateApplicationStatus env (applicationId u) [(''reportStatus'', ''PENDING'')]
           \<noteq> Returns (Some 200)"
  shows "outcome (handleUpload env u st) = Done \<and>
    toasts (handleUpload env u st) = [ToastSuccess (reportStatus u = Some ''VALID'')] \<and>
    reload (handleUpload env u st) \<and>
    filter (\<lambda>line. fst line \<noteq> Log) (console (handleUpload env u st)) =
      [case updateApplicationStatus env (applicationId u) [(''reportStatus'', ''PENDING'')] of
         Returns statusCode \<Rightarrow>
           (Warn, ''Failed to reset report status, but file upload was successful'')
       | Throws e \<Rightarrow> (Error, ''Error resetting report status:'')]"
proof -
  obtain checksum where t: "tryUpload env u selected =
      prepend
        [ComputeSHA256 (reportFile env selected),
         GetSignedURL (reportKey env u selected) (ftype selected) (fsize selected) checksum,
         UploadFile url (reportFile env selected)]
        [(Log, ''Signed URL response:''),
         (Log, ''Starting S3 upload for file: '' @ fname (reportFile env selected)),
         (Log, ''S3 upload verified successful for file: '' @ fname (reportFile env selected))]
        (commitReference env u (reportKey env u selected))"
    using tryUpload_uploaded[OF assms(3,4)] by blast
  show ?thesis
    using assms(1,2,5,6)
    by (auto simp: handleUpload_def t commitReference_def resetReportStatus_def prepend_def
        split: awaited.splits)
qed

theorem handleUpload_reset_nonfatal_witness:
  "updateApplicationStatus env_reset_500 (applicationId amina) [(''reportStatus'', ''PENDING'')]
     = Returns (Some 500) \<and>
   outcome (handleUpload env_reset_500 amina ready_state) = Done \<and>
   toasts (handleUpload env_reset_500 amina ready_state) = [ToastSuccess True] \<and>
   filter (\<lambda>line. fst line \<noteq> Log) (console (handleUpload env_reset_500 amina ready_state)) =
     [(Warn, ''Failed to reset report status, but file upload was successful'')] \<and>
   updateApplicationStatus env_reset_throws (applicationId amina) [(''reportStatus'', ''PENDING'')]
     = Throws ''Network Error'' \<and>
   outcome (handleUpload env_reset_throws amina ready_state) = Done \<and>
   toasts (handleUpload env_reset_throws amina ready_state) = [ToastSuccess True] \<and>
   filter (\<lambda>line. fst line \<noteq> Log) (console (handleUpload env_reset_throws amina ready_state)) =
     [(Error, ''Error resetting report status:'')]"
proof -
  have up: "uploadFile env_reset_500
        ''https://s3.example/upload_mtym/Amina_Idrissi/report_1717236000000.pdf''
        (reportFile env_reset_500 devoir_pdf) = Returns (Some True)"
    "uploadFile env_reset_throws
        ''https://s3.example/upload_mtym/Amina_Idrissi/report_1717236000000.pdf''
        (reportFile env_reset_throws devoir_pdf) = Returns (Some True)"
    by (simp_all add: env_reset_500_def env_reset_throws_def env_ok_def)
  have put: "putApplication env_reset_500 (applicationId amina)
        [(''reportUrl'', reportKey env_reset_500 amina devoir_pdf)] = Returns (Some 200)"
    "putApplication env_reset_throws (applicationId amina)
        [(''reportUrl'', reportKey env_reset_throws amina devoir_pdf)] = Returns (Some 200)"
    by (simp_all add: env_reset_500_def env_reset_throws_def env_ok_def)
  have r1: "updateApplicationStatus env_reset_500 (applicationId amina)
        [(''reportStatus'', ''PENDING'')] = Returns (Some 500)"
    by (simp add: env_reset_500_def env_ok_def)
  have r2: "updateApplicationStatus env_reset_throws (applicationId amina)
        [(''reportStatus'', ''PENDING'')] = Throws ''Network Error''"
    by (simp add: env_reset_throws_def env_ok_def)
  have n1: "updateApplicationStatus env_reset_500 (applicationId amina)
        [(''reportStatus'', ''PENDING'')] \<noteq> Returns (Some 200)"
    by (simp add: r1)
  have n2: "updateApplicationStatus env_reset_throws (applicationId amina)
        [(''reportStatus'', ''PENDING'')] \<noteq> Returns (Some 200)"
    by (simp add: r2)
  show ?thesis
    using handleUpload_reset_nonfatal
            [OF ready_open ready_selected authorizedUrl_devoir(4) up(1) put(1) n1]
          handleUpload_reset_nonfatal
            [OF ready_open ready_selected authorizedUrl_devoir(5) up(2) put(2) n2]
    by (simp add: r1 r2 amina_valid)
qed




section \<open>The applications-open gate\<close>

text \<open>
  On the report page, when the applications-open check throws or answers
  another status than 200, \<open>checkApplicationStatus\<close> sets \<open>isApplicationsOpen\<close> to false,
  and \<open>handleUpload\<close> then stops at its first test: it shows the closed-submissions
  toast and issues no call at all (no checksum, no request, no upload, no record update).
\<close>

theorem closed_gate_blocks_report:
  assumes "getApplicationsOpenStatus env = Throws e \<or>
           (getApplicationsOpenStatus env = Returns response \<and> open_statusCode response \<noteq> Some 200)"
  shows "isApplicationsOpen (fst (checkApplicationStatus env st)) = False \<and>
    isCheckingStatus (fst (checkApplicationStatus env st)) = False \<and>
    handleUpload env u (fst (checkApplicationStatus env st)) =
      \<lparr>outcome = SubmissionsClosed, state = fst (checkApplicationStatus env st), calls = [],
       console = [], toasts = [ToastSubmissionsClosed], reload = False\<rparr>"
  using assms
  by (auto simp: checkApplicationStatus_def handleUpload_def)

theorem closed_gate_blocks_report_witness:
  "getApplicationsOpenStatus env_open_throws = Throws ''Network Error'' \<and>
   outcome (handleUpload env_open_throws amina (fst (checkApplicationStatus env_open_throws ready_state)))
     = SubmissionsClosed \<and>
   calls (handleUpload env_open_throws amina (fst (checkApplicationStatus env_open_throws ready_state)))
     = [] \<and>
   getApplicationsOpenStatus env_open_503 = Returns \<lparr>open_statusCode = Some 503, open_isOpen = True\<rparr> \<and>
   outcome (handleUpload env_open_503 amina (fst (checkApplicationStatus env_open_503 ready_state)))
     = SubmissionsClosed \<and>
   calls (handleUpload env_open_503 amina (fst (checkApplicationStatus env_open_503 ready_state)))
     = []"
proof -
  have t: "getApplicationsOpenStatus env_open_throws = Throws ''Network Error''"
    by (simp add: env_open_throws_def)
  have s: "getApplicationsOpenStatus env_open_503
      = Returns \<lparr>open_statusCode = Some 503, open_isOpen = True\<rparr>"
    by (simp add: env_open_503_def)
  have h1: "getApplicationsOpenStatus env_open_throws = Throws ''Network Error'' \<or>
      (getApplicationsOpenStatus env_open_throws = Returns \<lparr>open_statusCode = Some 503, open_isOpen = True\<rparr> \<and>
       open_statusCode \<lparr>open_statusCode = Some 503, open_isOpen = True\<rparr> \<noteq> Some 200)"
    using t by simp
  have h2: "getApplicationsOpenStatus env_open_503 = Throws ''Network Error'' \<or>
      (getApplicationsOpenStatus env_open_503 = Returns \<lparr>open_statusCode = Some 503, open_isOpen = True\<rparr> \<and>
       open_statusCode \<lparr>open_statusCode = Some 503, open_isOpen = True\<rparr> \<noteq> Some 200)"
    using s by simp
  show ?thesis
    using closed_gate_blocks_report[OF h1, of ready_state amina]
          closed_gate_blocks_report[OF h2, of ready_state amina] t s
    by simp
qed

section \<open>The upload loop of the application form\<close>

text \<open>Whatever happens in it, the loop issues no call that writes to the record.\<close>

lemma uploadFiles_no_commit:
  "filter is_commit (fst (uploadFiles env folder files)) = []"
proof (induction files)
  case Nil
  show ?case by simp
next
  case (Cons f rest)
  obtain cs ls x where r: "uploadFiles env folder rest = (cs, ls, x)"
    by (cases "uploadFiles env folder rest") auto
  with Cons have "filter is_commit cs = []" by simp
  then show ?case
    by (auto simp: r prepend_def split: awaited.splits option.splits)
qed

lemma uploadFiles_first_fails:
  assumes "uploadFails env u f"
  shows "\<exists>cs ls msg.
    uploadFiles env (getUploadFolderName env (firstName u) (lastName u)) (f # rest)
      = (cs, ls, Inl (UploadFailed, msg))"
  using assms
  by (auto simp: uploadFails_def authorizedUrl_def objectKey_def prepend_def
      split: awaited.splits option.splits)

lemma uploadFiles_first_succeeds:
  assumes "uploadSucceeds env u f"
  shows "\<exists>checksum url.
    uploadFiles env (getUploadFolderName env (firstName u) (lastName u)) (f # rest)
      = prepend
          [ComputeSHA256 f,
           GetSignedURL (objectKey env u f) (ftype f) (fsize f) checksum,
           UploadFile url f]
          [(Log, ''Starting S3 upload for application file: '' @ fname f),
           (Log, ''S3 upload verified successful for application file: '' @ fname f)]
          (uploadFiles env (getUploadFolderName env (firstName u) (lastName u)) rest)"
  using assms
  by (auto simp: uploadSucceeds_def authorizedUrl_def objectKey_def prepend_def
      split: awaited.splits option.splits prod.splits)


lemma onSubmit_upload_failed:
  assumes "schoolCertificate fd = sc # scs" "grades fd = gr # grs"
    and "postApplication env = Returns response" "post_statusCode response = Some 200"
    and "uploadFails env u (certificateFile env sc) \<or>
         (uploadSucceeds env u (certificateFile env sc) \<and> uploadFails env u (gradesFile env gr))"
  shows "(\<exists>msg. form_outcome (onSubmit env u fd) = Failed UploadFailed msg) \<and>
    filter is_commit (form_calls (onSubmit env u fd)) = [] \<and>
    showErrorDialog (onSubmit env u fd)"
proof -
  let ?folder = "getUploadFolderName env (firstName u) (lastName u)"
  let ?files = "[certificateFile env sc, gradesFile env gr]"
  have "\<exists>cs ls msg. uploadFiles env ?folder ?files = (cs, ls, Inl (UploadFailed, msg))"
  proof -
    from assms(5) show ?thesis
    proof
      assume "uploadFails env u (certificateFile env sc)"
      then show ?thesis by (rule uploadFiles_first_fails)
    next
      assume a: "uploadSucceeds env u (certificateFile env sc) \<and> uploadFails env u (gradesFile env gr)"
      then obtain checksum url where
        "uploadFiles env ?folder ?files =
           prepend
             [ComputeSHA256 (certificateFile env sc),
              GetSignedURL (objectKey env u (certificateFile env sc)) (ftype (certificateFile env sc))
                (fsize (certificateFile env sc)) checksum,
              UploadFile url (certificateFile env sc)]
             [(Log, ''Starting S3 upload for application file: '' @ fname (certificateFile env sc)),
              (Log, ''S3 upload verified successful for application file: ''
                 @ fname (certificateFile env sc))]
             (uploadFiles env ?folder [gradesFile env gr])"
        using uploadFiles_first_succeeds[of env u "certificateFile env sc" "[gradesFile env gr]"]
        by blast
      moreover obtain cs ls msg where
        "uploadFiles env ?folder [gradesFile env gr] = (cs, ls, Inl (UploadFailed, msg))"
        using a uploadFiles_first_fails[of env u "gradesFile env gr" "[]"] by blast
      ultimately show ?thesis by (simp add: prepend_def)
    qed
  qed
  then obtain cs ls msg where
    l: "uploadFiles env ?folder ?files = (cs, ls, Inl (UploadFailed, msg))"
    by blast
  have "filter is_commit (fst (uploadFiles env ?folder ?files)) = []"
    by (rule uploadFiles_no_commit)
  with l have nc: "filter is_commit cs = []" by simp
  have t: "trySubmit env u ?folder ?files = (PostApplication # cs, ls, Inl (UploadFailed, msg))"
    using assms(3,4) l by (simp add: trySubmit_def prepend_def)
  have o: "onSubmit env u fd =
      \<lparr>form_outcome = Failed UploadFailed msg, form_calls = PostApplication # cs,
       form_console = ls, form_toasts = [], showErrorDialog = True, isFormLoading = False,
       redirected = False\<rparr>"
    using assms(1,2) t
    by (simp add: onSubmit_def Let_def certificateFile_def gradesFile_def)
  show ?thesis
    using nc by (simp add: o)
qed

text \<open>
  C3: when the upload step reports a failure (\<open>uploadFile\<close> throws, or its response is not
  a success), the workflow ends in the failure of the upload step and has issued no call
  that writes to the record: neither the record update nor a status update. This holds
  for the report page, where the stored record is therefore unchanged, and for the
  application form, whichever of its two files fails to upload (the form has posted its
  other fields before the loop; the file links and the status are not touched).
\<close>

theorem upload_failure_commits_nothing:
  "(isApplicationsOpen st \<and> selectedFile st = Some selected \<and>
    authorizedUrl env (reportKey env u selected) (reportFile env selected) = Some url \<and>
    uploadFile env url (reportFile env selected) \<noteq> Returns (Some True)
    \<longrightarrow>
      outcome (handleUpload env u st) =
        Failed UploadFailed
          (case uploadFile env url (reportFile env selected) of
             Throws e \<Rightarrow> e
           | Returns uploadResponse \<Rightarrow> ''S3 upload validation failed - unexpected response format'') \<and>
      filter is_commit (calls (handleUpload env u st)) = [] \<and>
      backend_after env (calls (handleUpload env u st)) b = b) \<and>
   (schoolCertificate fd = sc # scs \<and> grades fd = gr # grs \<and>
    postApplication env = Returns response \<and> post_statusCode response = Some 200 \<and>
    (uploadFails env u (certificateFile env sc) \<or>
     (uploadSucceeds env u (certificateFile env sc) \<and> uploadFails env u (gradesFile env gr)))
    \<longrightarrow>
      (\<exists>msg. form_outcome (onSubmit env u fd) = Failed UploadFailed msg) \<and>
      filter is_commit (form_calls (onSubmit env u fd)) = [] \<and>
      showErrorDialog (onSubmit env u fd))"
proof (intro conjI impI)
  assume a: "isApplicationsOpen st \<and> selectedFile st = Some selected \<and>
    authorizedUrl env (reportKey env u selected) (reportFile env selected) = Some url \<and>
    uploadFile env url (reportFile env selected) \<noteq> Returns (Some True)"
  then have a1: "isApplicationsOpen st" and a2: "selectedFile st = Some selected"
    and a3: "authorizedUrl env (reportKey env u selected) (reportFile env selected) = Some url"
    and a4: "uploadFile env url (reportFile env selected) \<noteq> Returns (Some True)"
    by simp_all
  show "outcome (handleUpload env u st) =
        Failed UploadFailed
          (case uploadFile env url (reportFile env selected) of
             Throws e \<Rightarrow> e
           | Returns uploadResponse \<Rightarrow> ''S3 upload validation failed - unexpected response format'')"
    by (rule handleUpload_upload_failed(1)[OF a1 a2 a3 a4])
  obtain checksum where c: "calls (handleUpload env u st) =
      [ComputeSHA256 (reportFile env selected),
       GetSignedURL (reportKey env u selected) (ftype selected) (fsize selected) checksum,
       UploadFile url (reportFile env selected)]"
    using handleUpload_upload_failed(2)[OF a1 a2 a3 a4] by blast
  show nc: "filter is_commit (calls (handleUpload env u st)) = []"
    by (simp add: c)
  show "backend_after env (calls (handleUpload env u st)) b = b"
    by (rule backend_after_no_commit[OF nc])
next
  assume a: "schoolCertificate fd = sc # scs \<and> grades fd = gr # grs \<and>
    postApplication env = Returns response \<and> post_statusCode response = Some 200 \<and>
    (uploadFails env u (certificateFile env sc) \<or>
     (uploadSucceeds env u (certificateFile env sc) \<and> uploadFails env u (gradesFile env gr)))"
  then have r: "(\<exists>msg. form_outcome (onSubmit env u fd) = Failed UploadFailed msg) \<and>
    filter is_commit (form_calls (onSubmit env u fd)) = [] \<and>
    showErrorDialog (onSubmit env u fd)"
    using onSubmit_upload_failed[of fd sc scs gr grs env response u] by blast
  from r show "\<exists>msg. form_outcome (onSubmit env u fd) = Failed UploadFailed msg" by blast
  from r show "filter is_commit (form_calls (onSubmit env u fd)) = []" by blast
  from r show "showErrorDialog (onSubmit env u fd)" by blast
qed

lemma two_files_fields:
  "schoolCertificate two_files = devoir_pdf # []" "grades two_files = releve_png # []"
  by (simp_all add: two_files_def)

lemma certificateFile_devoir:
  "certificateFile env_ok devoir_pdf = devoir_pdf\<lparr>fname := ''school_certificate_1717236000000.pdf''\<rparr>"
  "certificateFile env_second_upload_fails devoir_pdf
     = devoir_pdf\<lparr>fname := ''school_certificate_1717236000000.pdf''\<rparr>"
  "certificateFile env_commit_500 devoir_pdf
     = devoir_pdf\<lparr>fname := ''school_certificate_1717236000000.pdf''\<rparr>"
  "certificateFile env_open_throws devoir_pdf
     = devoir_pdf\<lparr>fname := ''school_certificate_1717236000000.pdf''\<rparr>"
  by (simp_all add: certificateFile_def env_defs split_pop_devoir devoir_pdf_def)

lemma gradesFile_releve:
  "gradesFile env_ok releve_png = releve_png\<lparr>fname := ''grades_1717236000001.png''\<rparr>"
  "gradesFile env_second_upload_fails releve_png
     = releve_png\<lparr>fname := ''grades_1717236000001.png''\<rparr>"
  "gradesFile env_commit_500 releve_png = releve_png\<lparr>fname := ''grades_1717236000001.png''\<rparr>"
  "gradesFile env_open_throws releve_png = releve_png\<lparr>fname := ''grades_1717236000001.png''\<rparr>"
  by (simp_all add: gradesFile_def env_defs split_pop_releve releve_png_def)

lemma second_upload_fails:
  "uploadSucceeds env_second_upload_fails amina (certificateFile env_second_upload_fails devoir_pdf)"
  "uploadFails env_second_upload_fails amina (gradesFile env_second_upload_fails releve_png)"
  by (simp_all add: uploadSucceeds_def uploadFails_def authorizedUrl_def objectKey_def
      certificateFile_devoir gradesFile_releve)
     (simp_all add: env_second_upload_fails_def env_ok_def truthy_url_def devoir_pdf_def
      releve_png_def amina_def)

theorem upload_failure_commits_nothing_witness:
  "uploadFile env_upload_throws
     ''https://s3.example/upload_mtym/Amina_Idrissi/report_1717236000000.pdf''
     (reportFile env_upload_throws devoir_pdf) = Throws ''Network Error'' \<and>
   outcome (handleUpload env_upload_throws amina ready_state) = Failed UploadFailed ''Network Error'' \<and>
   filter is_commit (calls (handleUpload env_upload_throws amina ready_state)) = [] \<and>
   backend_after env_upload_throws (calls (handleUpload env_upload_throws amina ready_state))
     validated_record = validated_record \<and>
   uploadSucceeds env_second_upload_fails amina (certificateFile env_second_upload_fails devoir_pdf) \<and>
   uploadFails env_second_upload_fails amina (gradesFile env_second_upload_fails releve_png) \<and>
   (\<exists>msg. form_outcome (onSubmit env_second_upload_fails amina two_files) = Failed UploadFailed msg) \<and>
   filter is_commit (form_calls (onSubmit env_second_upload_fails amina two_files)) = []"
proof -
  have up: "uploadFile env_upload_throws
     ''https://s3.example/upload_mtym/Amina_Idrissi/report_1717236000000.pdf''
     (reportFile env_upload_throws devoir_pdf) = Throws ''Network Error''"
    by (simp add: env_upload_throws_def env_ok_def)
  have post: "postApplication env_second_upload_fails
      = Returns \<lparr>post_statusCode = Some 200, post_message = None, post_id = Some 42\<rparr>"
    by (simp add: env_second_upload_fails_def env_ok_def)
  show ?thesis
    using upload_failure_commits_nothing
      [of ready_state devoir_pdf env_upload_throws amina
          "''https://s3.example/upload_mtym/Amina_Idrissi/report_1717236000000.pdf''"
          validated_record two_files devoir_pdf "[]" releve_png "[]"
          "\<lparr>post_statusCode = Some 200, post_message = None, post_id = Some 42\<rparr>"]
      upload_failure_commits_nothing
      [of ready_state devoir_pdf env_second_upload_fails amina
          "''https://s3.example/upload_mtym/Amina_Idrissi/report_1717236000000.pdf''"
          validated_record two_files devoir_pdf "[]" releve_png "[]"
          "\<lparr>post_statusCode = Some 200, post_message = None, post_id = Some 42\<rparr>"]
      ready_open ready_selected authorizedUrl_devoir(2) up post two_files_fields second_upload_fails
    by simp
qed

section \<open>The object key from the request to the record\<close>







section \<open>What the application form does not check\<close>

text \<open>
  C1 on the application form: both uploads succeed, the update of the upload links
  answers 500, and \<open>onSubmit\<close> goes on to the status update and ends in \<open>Done\<close>: success
  toast, redirection, no error dialog. The response of \<open>putApplication\<close> is never read
  there, so the files are stored without a record of them and nobody is told. (The report
  page reads it: see \<open>handleUpload_orphaned_upload\<close>.)
\<close>

theorem onSubmit_ignores_commit_status:
  "putApplication env_commit_500 (Some 42)
     [(''schoolCertificateUrl'', ''upload_mtym/Amina_Idrissi/school_certificate_1717236000000.pdf''),
      (''gradesUrl'', ''upload_mtym/Amina_Idrissi/grades_1717236000001.png'')] = Returns (Some 500) \<and>
   form_outcome (onSubmit env_commit_500 amina two_files) = Done \<and>
   form_toasts (onSubmit env_commit_500 amina two_files) = [ToastApplicationCreated] \<and>
   showErrorDialog (onSubmit env_commit_500 amina two_files) = False \<and>
   redirected (onSubmit env_commit_500 amina two_files) = True \<and>
   drop 7 (form_calls (onSubmit env_commit_500 amina two_files)) =
     [PutApplication (Some 42)
        [(''schoolCertificateUrl'', ''upload_mtym/Amina_Idrissi/school_certificate_1717236000000.pdf''),
         (''gradesUrl'', ''upload_mtym/Amina_Idrissi/grades_1717236000001.png'')],
      UpdateApplicationStatus (Some 42) [(''status'', ''PENDING'')]] \<and>
   outcome (handleUpload env_commit_500 amina ready_state) =
     Failed OrphanedUpload
       (''URGENT: File uploaded successfully to S3 but database update failed (Status: 500). ''
        @ ''Your file is safe in S3. Please contact support immediately with your name: ''
        @ ''Amina Idrissi and this timestamp: 2025-06-01T10:00:00.000Z'')"
proof (intro conjI)
  show "putApplication env_commit_500 (Some 42)
     [(''schoolCertificateUrl'', ''upload_mtym/Amina_Idrissi/school_certificate_1717236000000.pdf''),
      (''gradesUrl'', ''upload_mtym/Amina_Idrissi/grades_1717236000001.png'')] = Returns (Some 500)"
    by (simp add: env_commit_500_def)
  have r: "onSubmit env_commit_500 amina two_files =
     \<lparr>form_outcome = Done,
      form_calls =
        [PostApplication,
         ComputeSHA256 (devoir_pdf\<lparr>fname := ''school_certificate_1717236000000.pdf''\<rparr>),
         GetSignedURL ''upload_mtym/Amina_Idrissi/school_certificate_1717236000000.pdf''
           ''application/pdf'' 1048576 ''q1b2c3'',
         UploadFile ''https://s3.example/upload_mtym/Amina_Idrissi/school_certificate_1717236000000.pdf''
           (devoir_pdf\<lparr>fname := ''school_certificate_1717236000000.pdf''\<rparr>),
         ComputeSHA256 (releve_png\<lparr>fname := ''grades_1717236000001.png''\<rparr>),
         GetSignedURL ''upload_mtym/Amina_Idrissi/grades_1717236000001.png''
           ''image/png'' 4096 ''q1b2c3'',
         UploadFile ''https://s3.example/upload_mtym/Amina_Idrissi/grades_1717236000001.png''
           (releve_png\<lparr>fname := ''grades_1717236000001.png''\<rparr>),
         PutApplication (Some 42)
           [(''schoolCertificateUrl'', ''upload_mtym/Amina_Idrissi/school_certificate_1717236000000.pdf''),
            (''gradesUrl'', ''upload_mtym/Amina_Idrissi/grades_1717236000001.png'')],
         UpdateApplicationStatus (Some 42) [(''status'', ''PENDING'')]],
      form_console =
        [(Log, ''Starting S3 upload for application file: school_certificate_1717236000000.pdf''),
         (Log, ''S3 upload verified successful for application file: school_certificate_1717236000000.pdf''),
         (Log, ''Starting S3 upload for application file: grades_1717236000001.png''),
         (Log, ''S3 upload verified successful for application file: grades_1717236000001.png'')],
      form_toasts = [ToastApplicationCreated], showErrorDialog = False,
      isFormLoading = False, redirected = True\<rparr>"
    by (simp add: onSubmit_def trySubmit_def updateLinksAndStatus_def prepend_def Let_def
        truthy_url_def two_files_def env_commit_500_def env_ok_def amina_def split_pop_devoir
        split_pop_releve devoir_pdf_def releve_png_def)
  show "form_outcome (onSubmit env_commit_500 amina two_files) = Done"
    and "form_toasts (onSubmit env_commit_500 amina two_files) = [ToastApplicationCreated]"
    and "showErrorDialog (onSubmit env_commit_500 amina two_files) = False"
    and "redirected (onSubmit env_commit_500 amina two_files) = True"
    and "drop 7 (form_calls (onSubmit env_commit_500 amina two_files)) =
     [PutApplication (Some 42)
        [(''schoolCertificateUrl'', ''upload_mtym/Amina_Idrissi/school_certificate_1717236000000.pdf''),
         (''gradesUrl'', ''upload_mtym/Amina_Idrissi/grades_1717236000001.png'')],
      UpdateApplicationStatus (Some 42) [(''status'', ''PENDING'')]]"
    by (simp_all add: r)
  show "outcome (handleUpload env_commit_500 amina ready_state) =
     Failed OrphanedUpload
       (''URGENT: File uploaded successfully to S3 but database update failed (Status: 500). ''
        @ ''Your file is safe in S3. Please contact support immediately with your name: ''
        @ ''Amina Idrissi and this timestamp: 2025-06-01T10:00:00.000Z'')"
    by (simp add: handleUpload_def tryUpload_def uploadReport_def commitReference_def
        prepend_def Let_def truthy_url_def ready_state_def urgent_message_def
        template_of_status_def string_of_int_def digit_char_def
        env_commit_500_def env_ok_def amina_def split_pop_devoir devoir_pdf_def)
qed

text \<open>
  The run of \<open>onSubmit\<close> does not depend on what the applications-open check answers:
  nothing in it reads that answer or a state derived from it.
\<close>

lemma uploadFiles_gate_independent:
  "uploadFiles (env\<lparr>getApplicationsOpenStatus := r\<rparr>) folder files = uploadFiles env folder files"
  by (induction files) (simp_all split: awaited.splits option.splits)

lemma updateLinksAndStatus_gate_independent:
  "updateLinksAndStatus (env\<lparr>getApplicationsOpenStatus := r\<rparr>) u i folder files
     = updateLinksAndStatus env u i folder files"
  by (simp add: updateLinksAndStatus_def Let_def split: awaited.splits)

lemma trySubmit_gate_independent:
  "trySubmit (env\<lparr>getApplicationsOpenStatus := r\<rparr>) u folder files = trySubmit env u folder files"
  by (simp add: trySubmit_def uploadFiles_gate_independent updateLinksAndStatus_gate_independent
      del: uploadFiles.simps split: awaited.splits)

lemma onSubmit_gate_independent:
  "onSubmit (env\<lparr>getApplicationsOpenStatus := r\<rparr>) u fd = onSubmit env u fd"
  by (simp add: onSubmit_def Let_def trySubmit_gate_independent split: list.splits)

text \<open>
  C4 on the application form: the applications-open check throws, so that the report page
  holds submissions closed and \<open>handleUpload\<close> stops at its first test (see
  \<open>closed_gate_blocks_report\<close>); \<open>onSubmit\<close>, which has no such test, still posts the
  application, uploads both files, writes the upload links and the status, and ends in
  \<open>Done\<close>.
\<close>

theorem onSubmit_ignores_closed_gate:
  "getApplicationsOpenStatus env_open_throws = Throws ''Network Error'' \<and>
   isApplicationsOpen (fst (checkApplicationStatus env_open_throws initial_state)) = False \<and>
   form_outcome (onSubmit env_open_throws amina two_files) = Done \<and>
   map is_commit (form_calls (onSubmit env_open_throws amina two_files)) =
     [False, False, False, False, False, False, False, True, True]"
proof (intro conjI)
  show "getApplicationsOpenStatus env_open_throws = Throws ''Network Error''"
    by (simp add: env_open_throws_def)
  show "isApplicationsOpen (fst (checkApplicationStatus env_open_throws initial_state)) = False"
    by (simp add: checkApplicationStatus_def env_open_throws_def)
  have c: "form_outcome (onSubmit env_open_throws amina two_files) = Done \<and>
    form_calls (onSubmit env_open_throws amina two_files) =
        [PostApplication,
         ComputeSHA256 (devoir_pdf\<lparr>fname := ''school_certificate_1717236000000.pdf''\<rparr>),
         GetSignedURL ''upload_mtym/Amina_Idrissi/school_certificate_1717236000000.pdf''
           ''application/pdf'' 1048576 ''q1b2c3'',
         UploadFile ''https://s3.example/upload_mtym/Amina_Idrissi/school_certificate_1717236000000.pdf''
           (devoir_pdf\<lparr>fname := ''school_certificate_1717236000000.pdf''\<rparr>),
         ComputeSHA256 (releve_png\<lparr>fname := ''grades_1717236000001.png''\<rparr>),
         GetSignedURL ''upload_mtym/Amina_Idrissi/grades_1717236000001.png''
           ''image/png'' 4096 ''q1b2c3'',
         UploadFile ''https://s3.example/upload_mtym/Amina_Idrissi/grades_1717236000001.png''
           (releve_png\<lparr>fname := ''grades_1717236000001.png''\<rparr>),
         PutApplication (Some 42)
           [(''schoolCertificateUrl'', ''upload_mtym/Amina_Idrissi/school_certificate_1717236000000.pdf''),
            (''gradesUrl'', ''upload_mtym/Amina_Idrissi/grades_1717236000001.png'')],
         UpdateApplicationStatus (Some 42) [(''status'', ''PENDING'')]]"
    by (simp add: onSubmit_def trySubmit_def updateLinksAndStatus_def prepend_def Let_def
        truthy_url_def two_files_def env_open_throws_def env_ok_def amina_def split_pop_devoir
        split_pop_releve devoir_pdf_def releve_png_def)
  from c show "form_outcome (onSubmit env_open_throws amina two_files) = Done"
    by simp
  from c show "map is_commit (form_calls (onSubmit env_open_throws amina two_files)) =
     [False, False, False, False, False, False, False, True, True]"
    by simp
qed

end
